theory Spec2Isabelle
  imports Main "HOL-Library.Word" "HOL-Library.Sublist"
begin

section \<open>The ResearchNFT contract\<close>

text \<open>
  The Solidity contract \<^verbatim>\<open>ResearchNFT\<close> keeps, next to the state it inherits from
  \<^verbatim>\<open>Ownable\<close> and \<^verbatim>\<open>ERC1155\<close>, a global base URI and two mappings keyed by token id:
  the current metadata pointer and the list of all pointers the id ever had.
  A Solidity mapping is total (an absent key reads as the zero value), so both mappings are
  total functions whose default is the empty string and the empty array. A Solidity string
  is a byte array, here a \<open>string\<close>; a dynamic array is a list (its length stays far below
  the 256-bit bound of the source).
  \<^verbatim>\<open>msg.sender\<close> is the first argument of every external function of the model.
\<close>

type_synonym address = "160 word"
type_synonym uint256 = "256 word"
type_synonym balances = "uint256 \<Rightarrow> address \<Rightarrow> uint256"

datatype revert =
    OwnableUnauthorizedAccount address
  | IPFS_URL_cannot_be_empty
  | Token_ID_does_not_exist
  | No_history_for_this_token_ID
  | ERC1155InvalidReceiver address
  | ArithmeticOverflow

record contract =
  owner :: address
  baseURI :: string
  tokenMetadata :: "uint256 \<Rightarrow> string"
  metadataHistory :: "uint256 \<Rightarrow> string list"
  balances :: balances

text \<open>
  \<^verbatim>\<open>_mint\<close> is inherited from the ERC1155 base contract, which is not part of the
  repository. The contract's functions take it as a parameter: any function that may revert
  and otherwise returns the new balances. (The receiver hook of the base contract is taken
  not to call back into this contract.)
\<close>

type_synonym erc1155_mint = "address \<Rightarrow> uint256 \<Rightarrow> uint256 \<Rightarrow> balances \<Rightarrow> revert + balances"

definition checked_mint :: erc1155_mint where
  "checked_mint account id' amount b =
     (if account = 0 then Inl (ERC1155InvalidReceiver 0)
      else if 2 ^ 256 \<le> unat (b id' account) + unat amount then Inl ArithmeticOverflow
      else Inr (b(id' := (b id')(account := b id' account + amount))))"

definition constructor :: "address \<Rightarrow> string \<Rightarrow> contract" where
  "constructor sender baseURI' =
     \<lparr>owner = sender, baseURI = baseURI', tokenMetadata = (\<lambda>_. []),
      metadataHistory = (\<lambda>_. []), balances = (\<lambda>_ _. 0)\<rparr>"

definition setBaseURI :: "string \<Rightarrow> contract \<Rightarrow> contract" where
  "setBaseURI baseURI' s = s\<lparr>baseURI := baseURI'\<rparr>"

definition uri :: "uint256 \<Rightarrow> contract \<Rightarrow> string" where
  "uri tokenId s = baseURI s"

definition mint ::
  "erc1155_mint \<Rightarrow> address \<Rightarrow> address \<Rightarrow> uint256 \<Rightarrow> uint256 \<Rightarrow> string \<Rightarrow> contract
     \<Rightarrow> revert + contract" where
  "mint M sender account id' amount ipfsURL s =
     (if sender \<noteq> owner s then Inl (OwnableUnauthorizedAccount sender)
      else if \<not> length ipfsURL > 0 then Inl IPFS_URL_cannot_be_empty
      else case M account id' amount (balances s) of
             Inl e \<Rightarrow> Inl e
           | Inr b \<Rightarrow>
               Inr (s\<lparr>balances := b,
                      tokenMetadata := (tokenMetadata s)(id' := ipfsURL),
                      metadataHistory :=
                        (metadataHistory s)(id' := metadataHistory s id' @ [ipfsURL])\<rparr>))"

definition updateTokenMetadata ::
  "address \<Rightarrow> uint256 \<Rightarrow> string \<Rightarrow> contract \<Rightarrow> revert + contract" where
  "updateTokenMetadata sender id' newIpfsURL s =
     (if sender \<noteq> owner s then Inl (OwnableUnauthorizedAccount sender)
      else if \<not> length newIpfsURL > 0 then Inl IPFS_URL_cannot_be_empty
      else if \<not> length (tokenMetadata s id') > 0 then Inl Token_ID_does_not_exist
      else Inr (s\<lparr>metadataHistory :=
                     (metadataHistory s)(id' := metadataHistory s id' @ [newIpfsURL]),
                   tokenMetadata := (tokenMetadata s)(id' := newIpfsURL)\<rparr>))"

definition getTokenMetadata :: "uint256 \<Rightarrow> contract \<Rightarrow> revert + string" where
  "getTokenMetadata id' s =
     (if \<not> length (tokenMetadata s id') > 0 then Inl Token_ID_does_not_exist
      else Inr (tokenMetadata s id'))"

definition getMetadataHistory :: "uint256 \<Rightarrow> contract \<Rightarrow> revert + string list" where
  "getMetadataHistory id' s =
     (if \<not> length (metadataHistory s id') > 0 then Inl No_history_for_this_token_ID
      else Inr (metadataHistory s id'))"

definition updateBaseURI :: "address \<Rightarrow> string \<Rightarrow> contract \<Rightarrow> revert + contract" where
  "updateBaseURI sender newBaseURI s =
     (if sender \<noteq> owner s then Inl (OwnableUnauthorizedAccount sender)
      else Inr (setBaseURI newBaseURI s))"

text \<open>
  A transaction that reverts leaves the storage as it was. The calls a contract state can
  see are the three mutators above and the inherited ones (ownership transfer and
  renouncement, token transfers, burns), which write the owner and the balances only.
\<close>

definition commit :: "contract \<Rightarrow> revert + contract \<Rightarrow> contract" where
  "commit s r = (case r of Inl e \<Rightarrow> s | Inr s' \<Rightarrow> s')"

datatype call =
    Mint address address uint256 uint256 string
  | UpdateTokenMetadata address uint256 string
  | UpdateBaseURI address string
  | Inherited address balances

fun transact :: "erc1155_mint \<Rightarrow> call \<Rightarrow> contract \<Rightarrow> revert + contract" where
  "transact M (Mint sender account id' amount ipfsURL) s = mint M sender account id' amount ipfsURL s"
| "transact M (UpdateTokenMetadata sender id' newIpfsURL) s = updateTokenMetadata sender id' newIpfsURL s"
| "transact M (UpdateBaseURI sender newBaseURI) s = updateBaseURI sender newBaseURI s"
| "transact M (Inherited owner' balances') s = Inr (s\<lparr>owner := owner', balances := balances'\<rparr>)"

definition after :: "erc1155_mint \<Rightarrow> call \<Rightarrow> contract \<Rightarrow> contract" where
  "after M c s = commit s (transact M c s)"

fun run :: "erc1155_mint \<Rightarrow> call list \<Rightarrow> contract \<Rightarrow> contract" where
  "run M [] s = s"
| "run M (c # cs) s = run M cs (after M c s)"

text \<open>
  The metadata pointer of a token id is well formed when either the id was never minted
  (no current URI, empty history) or the current URI is non-empty and is the last entry of
  a non-empty history.
\<close>

definition pointer_inv :: "contract \<Rightarrow> uint256 \<Rightarrow> bool" where
  "pointer_inv s id' =
     (if metadataHistory s id' = [] then tokenMetadata s id' = []
      else tokenMetadata s id' \<noteq> [] \<and> last (metadataHistory s id') = tokenMetadata s id')"

section \<open>The workflow script\<close>

subsection \<open>JavaScript values and library functions the script uses\<close>

text \<open>
  \<^verbatim>\<open>process.env\<close> maps variable names to strings; a variable that is not set reads as
  \<^verbatim>\<open>undefined\<close>, modelled as \<open>None\<close>. A string is a list of code units below 256.
\<close>

type_synonym env = "string \<rightharpoonup> string"

text \<open>\<^verbatim>\<open>!x\<close> for \<open>x\<close> a string or \<^verbatim>\<open>undefined\<close>: true for \<^verbatim>\<open>undefined\<close> and for the empty string.\<close>

definition falsy :: "string option \<Rightarrow> bool" where
  "falsy x = (case x of None \<Rightarrow> True | Some s \<Rightarrow> s = [])"

text \<open>\<^verbatim>\<open>a + b\<close> for \<open>b\<close> a string: \<^verbatim>\<open>undefined\<close> is converted to the string "undefined".\<close>

definition plus_string :: "string option \<Rightarrow> string \<Rightarrow> string" where
  "plus_string a b = (case a of None \<Rightarrow> ''undefined'' @ b | Some s \<Rightarrow> s @ b)"

text \<open>
  \<^verbatim>\<open>path.join(dir, name)\<close> for a normalised directory and a plain file name, and
  \<^verbatim>\<open>path.basename\<close> (POSIX): the last segment, trailing separators dropped.
\<close>

definition path_join :: "string \<Rightarrow> string \<Rightarrow> string" where
  "path_join dir name =
     (if dir \<noteq> [] \<and> last dir = CHR ''/'' then dir @ name else dir @ ''/'' @ name)"

definition basename :: "string \<Rightarrow> string" where
  "basename p =
     rev (takeWhile (\<lambda>c. c \<noteq> CHR ''/'') (dropWhile (\<lambda>c. c = CHR ''/'') (rev p)))"

text \<open>
  \<^verbatim>\<open>JSON.stringify(value, null, space)\<close> on objects whose leaves are strings: the
  serialisation of ECMAScript (QuoteJSONString, SerializeJSONObject) with the gap made of
  \<open>min 10 space\<close> blanks. Keys keep their insertion order.
\<close>

datatype json = JString string | JObject "(string \<times> json) list"

definition hex_digit :: "nat \<Rightarrow> char" where
  "hex_digit n = ''0123456789abcdef'' ! (n mod 16)"

definition quote_code_unit :: "char \<Rightarrow> string" where
  "quote_code_unit c =
     (if c = CHR 0x08 then [CHR 0x5C, CHR ''b'']
      else if c = CHR 0x09 then [CHR 0x5C, CHR ''t'']
      else if c = CHR 0x0A then [CHR 0x5C, CHR ''n'']
      else if c = CHR 0x0C then [CHR 0x5C, CHR ''f'']
      else if c = CHR 0x0D then [CHR 0x5C, CHR ''r'']
      else if c = CHR 0x22 then [CHR 0x5C, CHR 0x22]
      else if c = CHR 0x5C then [CHR 0x5C, CHR 0x5C]
      else if (of_char c :: nat) < 0x20
        then [CHR 0x5C, CHR ''u'', CHR ''0'', CHR ''0'',
              hex_digit (of_char c div 16), hex_digit (of_char c)]
      else [c])"

definition QuoteJSONString :: "string \<Rightarrow> string" where
  "QuoteJSONString s = [CHR 0x22] @ concat (map quote_code_unit s) @ [CHR 0x22]"

fun join :: "string \<Rightarrow> string list \<Rightarrow> string" where
  "join sep [] = []"
| "join sep [x] = x"
| "join sep (x # y # ys) = x @ sep @ join sep (y # ys)"

fun SerializeJSONProperty :: "string \<Rightarrow> string \<Rightarrow> json \<Rightarrow> string" where
  "SerializeJSONProperty gap indent (JString s) = QuoteJSONString s"
| "SerializeJSONProperty gap indent (JObject kvs) =
     (let stepback = indent;
          indent' = indent @ gap;
          partial = map (\<lambda>kv. QuoteJSONString (fst kv) @ '':'' @ (if gap \<noteq> [] then '' '' else [])
                            @ SerializeJSONProperty gap indent' (snd kv)) kvs
      in if partial = [] then ''{}''
         else if gap = [] then ''{'' @ join '','' partial @ ''}''
         else ''{'' @ [CHR 0x0A] @ indent' @ join ('','' @ [CHR 0x0A] @ indent') partial
              @ [CHR 0x0A] @ stepback @ ''}'')"

definition JSON_stringify :: "json \<Rightarrow> nat \<Rightarrow> string" where
  "JSON_stringify v space = SerializeJSONProperty (replicate (min 10 space) CHR '' '') [] v"

text \<open>
  The text the specification gives for the persisted record: the object with the two
  members \<open>name\<close> and \<open>value\<close>, one member a line, indented by two blanks.
\<close>

definition attestation_record_text :: "string \<Rightarrow> string" where
  "attestation_record_text uid =
     ''{'' @ [CHR 0x0A]
     @ ''  '' @ [CHR 0x22] @ ''name'' @ [CHR 0x22] @ '': '' @ [CHR 0x22] @ ''AttestationUID'' @ [CHR 0x22]
     @ '','' @ [CHR 0x0A]
     @ ''  '' @ [CHR 0x22] @ ''value'' @ [CHR 0x22] @ '': '' @ QuoteJSONString uid @ [CHR 0x0A]
     @ ''}''"

subsection \<open>Errors, observable actions, the world outside the script\<close>

text \<open>
  The three errors the scripts construct themselves, and \<open>Thrown\<close> for whatever an SDK,
  the attestation module, the minting module or the file system throws.
\<close>

datatype error =
    PinataKeysNotConfigured
  | FileNotFound string
  | RecipientNotConfigured
  | Thrown string

record pin_options =
  pinataMetadata_name :: string
  pinataOptions_cidVersion :: nat

record pin_result =
  IpfsHash :: string

datatype read_stream = ReadStream string

type_synonym receipt = string

datatype event =
    ConsoleLog "string list"
  | ConsoleError string error
  | Call_createAttestation
  | WriteFileSync string string
  | Call_uploadToIPFS string
  | ExistsSync string
  | CreateReadStream string
  | PinFileToIPFS read_stream pin_options
  | ReadEnv string
  | Call_mintNFTree string int int string

text \<open>
  The modules \<^verbatim>\<open>createAttestation.js\<close> and \<^verbatim>\<open>mintNFTree.js\<close> and the pinning SDK are
  collaborators of the script: each is the result it gives in the run at hand.
\<close>

record services =
  createAttestation :: "error + string"
  pinFileToIPFS :: "read_stream \<Rightarrow> pin_options \<Rightarrow> error + pin_result"
  mintNFTree :: "string \<Rightarrow> int \<Rightarrow> int \<Rightarrow> string \<Rightarrow> error + receipt"

record world =
  env :: env
  dirname :: string
  files :: "string \<rightharpoonup> string"
  write_error :: "string \<Rightarrow> error option"

definition existsSync :: "(string \<rightharpoonup> string) \<Rightarrow> string \<Rightarrow> bool" where
  "existsSync fs p = (fs p \<noteq> None)"

text \<open>\<^verbatim>\<open>fs.writeFileSync\<close> replaces the whole content of the file, or throws.\<close>

definition writeFileSync :: "world \<Rightarrow> string \<Rightarrow> string \<Rightarrow> error + (string \<rightharpoonup> string)" where
  "writeFileSync W p text' =
     (case write_error W p of Some e \<Rightarrow> Inl e | None \<Rightarrow> Inr ((files W)(p \<mapsto> text')))"

subsection \<open>The upload module\<close>

text \<open>The module reads its three settings once, when it is loaded.\<close>

record pinata_module =
  pinataApiKey :: "string option"
  pinataSecretApiKey :: "string option"
  gatewayURL :: "string option"

definition load_uploadToIPFS :: "env \<Rightarrow> pinata_module" where
  "load_uploadToIPFS e =
     \<lparr>pinataApiKey = e ''PINATA_API_KEY'',
      pinataSecretApiKey = e ''PINATA_API_SECRET'',
      gatewayURL = e ''PINATA_GATEWAY_URL''\<rparr>"

text \<open>The body of the \<^verbatim>\<open>try\<close> block: the result and the actions performed, in order.\<close>

definition uploadToIPFS_try ::
  "pinata_module \<Rightarrow> services \<Rightarrow> (string \<rightharpoonup> string) \<Rightarrow> string \<Rightarrow> (error + string) \<times> event list" where
  "uploadToIPFS_try m sv fs filePath =
     (if falsy (pinataApiKey m) \<or> falsy (pinataSecretApiKey m)
        then (Inl PinataKeysNotConfigured, [])
      else if \<not> existsSync fs filePath
        then (Inl (FileNotFound filePath), [ExistsSync filePath])
      else
        let readableStreamForFile = ReadStream filePath;
            options = \<lparr>pinataMetadata_name = basename filePath, pinataOptions_cidVersion = 0\<rparr>;
            done = [ExistsSync filePath, CreateReadStream filePath,
                    PinFileToIPFS readableStreamForFile options]
        in case pinFileToIPFS sv readableStreamForFile options of
             Inl e \<Rightarrow> (Inl e, done)
           | Inr result \<Rightarrow>
               (Inr (plus_string (gatewayURL m) (IpfsHash result)),
                done @ [ConsoleLog [''Arquivo enviado para IPFS com sucesso!''],
                        ConsoleLog [''ipfsCID: '', IpfsHash result]]))"

text \<open>The \<^verbatim>\<open>catch\<close> block logs the error and throws it again.\<close>

definition uploadToIPFS ::
  "pinata_module \<Rightarrow> services \<Rightarrow> (string \<rightharpoonup> string) \<Rightarrow> string \<Rightarrow> (error + string) \<times> event list" where
  "uploadToIPFS m sv fs filePath =
     (case uploadToIPFS_try m sv fs filePath of
        (Inl e, evs) \<Rightarrow> (Inl e, evs @ [ConsoleError ''Erro ao fazer upload para o IPFS:'' e])
      | (Inr url, evs) \<Rightarrow> (Inr url, evs))"

subsection \<open>The orchestrating script\<close>

definition saveAttestationToJson ::
  "world \<Rightarrow> string \<Rightarrow> json \<Rightarrow> (error + unit) \<times> (string \<rightharpoonup> string) \<times> event list" where
  "saveAttestationToJson W attestationUID data =
     (let filePath = path_join (dirname W) ''attestation.json'';
          text' = JSON_stringify data 2
      in case writeFileSync W filePath text' of
           Inl e \<Rightarrow> (Inl e, files W, [WriteFileSync filePath text'])
         | Inr fs \<Rightarrow>
             (Inr (), fs, [WriteFileSync filePath text',
                           ConsoleLog [''Attestation saved to '' @ filePath]]))"

text \<open>
  The body of the \<^verbatim>\<open>try\<close> block of the main function: its result, the files it leaves
  and the actions it performed, in order.
\<close>

definition runWorkflow_try ::
  "world \<Rightarrow> services \<Rightarrow> (error + unit) \<times> (string \<rightharpoonup> string) \<times> event list" where
  "runWorkflow_try W sv =
     (let t0 = [ConsoleLog [''Step 1: Creating attestation...''], Call_createAttestation]
      in (case createAttestation sv of
           Inl e \<Rightarrow> (Inl e, files W, t0)
         | Inr attestationUID \<Rightarrow>
      (let t1 = t0 @ [ConsoleLog [''Attestation created successfully. UID:'', attestationUID],
                      ConsoleLog [''Step 2: Saving attestation data to JSON file...'']];
           attestationData =
             JObject [(''name'', JString ''AttestationUID''), (''value'', JString attestationUID)]
       in (case saveAttestationToJson W attestationUID attestationData of
           (Inl e, fs, evs) \<Rightarrow> (Inl e, fs, t1 @ evs)
         | (Inr u, fs, evs) \<Rightarrow>
      (let filePath = path_join (dirname W) ''metadataNFTree'';
           t2 = t1 @ evs @ [ConsoleLog [''Step 3: Uploading attestation JSON file to IPFS...''],
                            Call_uploadToIPFS filePath]
       in (case uploadToIPFS (load_uploadToIPFS (env W)) sv fs filePath of
           (Inl e, evs') \<Rightarrow> (Inl e, fs, t2 @ evs')
         | (Inr ipfsCID, evs') \<Rightarrow>
      (let t3 = t2 @ evs' @ [ConsoleLog [''File uploaded to IPFS successfully! CID:'', ipfsCID],
                             ConsoleLog [''Step 4: Minting ERC-1155 NFT...''],
                             ReadEnv ''RECIPIENT_ADDRESS''];
           recipient = env W ''RECIPIENT_ADDRESS'';
           tokenId = (2 :: int);
           amount = (1 :: int);
           tokenURI = ipfsCID
       in (case recipient of
           None \<Rightarrow> (Inl RecipientNotConfigured, fs, t3)
         | Some to \<Rightarrow>
      (if to = [] then (Inl RecipientNotConfigured, fs, t3)
       else (case mintNFTree sv to tokenId amount tokenURI of
           Inl e \<Rightarrow> (Inl e, fs, t3 @ [Call_mintNFTree to tokenId amount tokenURI])
         | Inr mintReceipt \<Rightarrow>
             (Inr (), fs,
              t3 @ [Call_mintNFTree to tokenId amount tokenURI,
                    ConsoleLog [''ERC-1155 NFT minted successfully! Transaction details:'',
                                mintReceipt],
                    ConsoleLog [''Workflow completed successfully!'']])))))))))))"

text \<open>
  The main function: an error of the body is caught and logged, and the function returns
  normally, so the promise of the call is fulfilled in either case (\<open>settled = Inr ()\<close>;
  a rejected promise would be \<open>Inl\<close>).
\<close>

record outcome =
  settled :: "error + unit"
  files_after :: "string \<rightharpoonup> string"
  events :: "event list"

definition runWorkflow :: "world \<Rightarrow> services \<Rightarrow> outcome" where
  "runWorkflow W sv =
     (case runWorkflow_try W sv of
        (Inl error, fs, evs) \<Rightarrow>
          \<lparr>settled = Inr (), files_after = fs,
           events = evs @ [ConsoleError ''Error in main process:'' error]\<rparr>
      | (Inr _, fs, evs) \<Rightarrow> \<lparr>settled = Inr (), files_after = fs, events = evs\<rparr>)"

text \<open>The five steps of a run, read off the actions.\<close>

datatype step = Attest | Persist | Upload | ReadRecipient | MintToken

fun step_of :: "event \<Rightarrow> step option" where
  "step_of Call_createAttestation = Some Attest"
| "step_of (WriteFileSync p t) = Some Persist"
| "step_of (Call_uploadToIPFS p) = Some Upload"
| "step_of (ReadEnv v) = Some ReadRecipient"
| "step_of (Call_mintNFTree to tokenId amount tokenURI) = Some MintToken"
| "step_of _ = None"

definition steps_of :: "event list \<Rightarrow> step list" where
  "steps_of evs = List.map_filter step_of evs"

definition network_calls :: "event list \<Rightarrow> event list" where
  "network_calls evs = filter (\<lambda>e. case e of PinFileToIPFS s opts \<Rightarrow> True | _ \<Rightarrow> False) evs"

definition mint_calls :: "event list \<Rightarrow> event list" where
  "mint_calls evs =
     filter (\<lambda>e. case e of Call_mintNFTree to tokenId amount tokenURI \<Rightarrow> True | _ \<Rightarrow> False) evs"

text \<open>
  The two fixed paths of the script, and the files as the second step leaves them when
  the attestation has the identifier \<open>uid\<close>.
\<close>

definition attestation_json :: "world \<Rightarrow> string" where
  "attestation_json W = path_join (dirname W) ''attestation.json''"

definition metadataNFTree :: "world \<Rightarrow> string" where
  "metadataNFTree W = path_join (dirname W) ''metadataNFTree''"

definition written :: "world \<Rightarrow> string \<Rightarrow> (string \<rightharpoonup> string)" where
  "written W uid =
     (files W)(attestation_json W \<mapsto>
        JSON_stringify
          (JObject [(''name'', JString ''AttestationUID''), (''value'', JString uid)]) 2)"

text \<open>The options the upload passes to the pinning service for a file.\<close>

definition options_for :: "string \<Rightarrow> pin_options" where
  "options_for filePath =
     \<lparr>pinataMetadata_name = basename filePath, pinataOptions_cidVersion = 0\<rparr>"

text \<open>
  A concrete run for the examples: the script lives in \<^verbatim>\<open>/app\<close>, the file to upload
  exists, every setting is present, and the collaborators answer with the attestation
  identifier \<^verbatim>\<open>0xabc\<close>, the content identifier \<^verbatim>\<open>Qm123\<close> and a receipt.
\<close>

definition mock_services :: services where
  "mock_services =
     \<lparr>createAttestation = Inr ''0xabc'',
      pinFileToIPFS = (\<lambda>stream opts. Inr \<lparr>IpfsHash = ''Qm123''\<rparr>),
      mintNFTree = (\<lambda>to tokenId amount tokenURI. Inr ''receipt'')\<rparr>"

definition mock_env :: env where
  "mock_env =
     [''PINATA_API_KEY'' \<mapsto> ''key'', ''PINATA_API_SECRET'' \<mapsto> ''secret'',
      ''PINATA_GATEWAY_URL'' \<mapsto> ''https://gateway.pinata.cloud/ipfs/'',
      ''RECIPIENT_ADDRESS'' \<mapsto> ''0xf703e22985579d53284648Ba4C56735d6B746c2d'']"

definition mock_world :: world where
  "mock_world =
     \<lparr>env = mock_env, dirname = ''/app'',
      files = [''/app/metadataNFTree'' \<mapsto> ''{}''],
      write_error = (\<lambda>p. None)\<rparr>"

subsection \<open>Facts about single calls\<close>

lemma mint_Inr:
  "mint M sender account id' amount ipfsURL s = Inr s' \<Longrightarrow>
     sender = owner s \<and> ipfsURL \<noteq> [] \<and>
     (\<exists>b. M account id' amount (balances s) = Inr b \<and>
        s' = s\<lparr>balances := b,
               tokenMetadata := (tokenMetadata s)(id' := ipfsURL),
               metadataHistory := (metadataHistory s)(id' := metadataHistory s id' @ [ipfsURL])\<rparr>)"
  by (auto simp: mint_def split: if_splits sum.splits)

lemma updateTokenMetadata_Inr:
  "updateTokenMetadata sender id' newIpfsURL s = Inr s' \<Longrightarrow>
     sender = owner s \<and> newIpfsURL \<noteq> [] \<and> tokenMetadata s id' \<noteq> [] \<and>
     s' = s\<lparr>metadataHistory := (metadataHistory s)(id' := metadataHistory s id' @ [newIpfsURL]),
            tokenMetadata := (tokenMetadata s)(id' := newIpfsURL)\<rparr>"
  by (auto simp: updateTokenMetadata_def split: if_splits)

lemma updateBaseURI_Inr:
  "updateBaseURI sender newBaseURI s = Inr s' \<Longrightarrow>
     sender = owner s \<and> s' = s\<lparr>baseURI := newBaseURI\<rparr>"
  by (auto simp: updateBaseURI_def setBaseURI_def split: if_splits)

lemma transact_history:
  "transact M c s = Inr s' \<Longrightarrow>
     metadataHistory s' i = metadataHistory s i \<and> tokenMetadata s' i = tokenMetadata s i
     \<or> (\<exists>u. u \<noteq> [] \<and> metadataHistory s' i = metadataHistory s i @ [u] \<and> tokenMetadata s' i = u)"
proof (cases c)
  case (Mint sender account id' amount ipfsURL)
  assume "transact M c s = Inr s'"
  with Mint have "mint M sender account id' amount ipfsURL s = Inr s'" by simp
  from mint_Inr [OF this] show ?thesis by (cases "i = id'") auto
next
  case (UpdateTokenMetadata sender id' newIpfsURL)
  assume "transact M c s = Inr s'"
  with UpdateTokenMetadata have "updateTokenMetadata sender id' newIpfsURL s = Inr s'" by simp
  from updateTokenMetadata_Inr [OF this] show ?thesis by (cases "i = id'") auto
next
  case (UpdateBaseURI sender newBaseURI)
  assume "transact M c s = Inr s'"
  with UpdateBaseURI have "updateBaseURI sender newBaseURI s = Inr s'" by simp
  from updateBaseURI_Inr [OF this] show ?thesis by auto
next
  case (Inherited owner' balances')
  assume "transact M c s = Inr s'"
  with Inherited show ?thesis by auto
qed

lemma after_history:
  "metadataHistory (after M c s) i = metadataHistory s i \<and>
     tokenMetadata (after M c s) i = tokenMetadata s i
   \<or> (\<exists>u. u \<noteq> [] \<and> metadataHistory (after M c s) i = metadataHistory s i @ [u] \<and>
          tokenMetadata (after M c s) i = u)"
proof (cases "transact M c s")
  case (Inl e)
  then show ?thesis by (simp add: after_def commit_def)
next
  case (Inr s')
  from transact_history [OF this, of i] Inr show ?thesis
    by (simp add: after_def commit_def)
qed

lemma after_pointer_inv: "pointer_inv s i \<Longrightarrow> pointer_inv (after M c s) i"
  using after_history [of M c s i] by (auto simp: pointer_inv_def split: if_splits)

lemma after_prefix: "prefix (metadataHistory s i) (metadataHistory (after M c s) i)"
  using after_history [of M c s i] by auto

lemma after_minted: "tokenMetadata s i \<noteq> [] \<Longrightarrow> tokenMetadata (after M c s) i \<noteq> []"
  using after_history [of M c s i] by auto

lemma run_pointer_inv: "pointer_inv s i \<Longrightarrow> pointer_inv (run M cs s) i"
  by (induction cs arbitrary: s) (simp_all add: after_pointer_inv)

lemma run_prefix: "prefix (metadataHistory s i) (metadataHistory (run M cs s) i)"
proof (induction cs arbitrary: s)
  case Nil
  show ?case by simp
next
  case (Cons c cs)
  have "prefix (metadataHistory s i) (metadataHistory (after M c s) i)"
    by (rule after_prefix)
  also have "prefix \<dots> (metadataHistory (run M cs (after M c s)) i)"
    by (rule Cons.IH)
  finally show ?case by simp
qed

lemma run_minted: "tokenMetadata s i \<noteq> [] \<Longrightarrow> tokenMetadata (run M cs s) i \<noteq> []"
  by (induction cs arbitrary: s) (simp_all add: after_minted)

lemma constructor_pointer_inv: "pointer_inv (constructor sender b) i"
  by (simp add: pointer_inv_def constructor_def)

lemma mint_succeeds:
  assumes "sender = owner s" and "ipfsURL \<noteq> []"
    and "M account id' amount (balances s) = Inr b"
  shows "mint M sender account id' amount ipfsURL s =
           Inr (s\<lparr>balances := b,
                  tokenMetadata := (tokenMetadata s)(id' := ipfsURL),
                  metadataHistory := (metadataHistory s)(id' := metadataHistory s id' @ [ipfsURL])\<rparr>)"
  using assms by (simp add: mint_def)

lemma reverted_call_keeps_state: "transact M c s = Inl e \<Longrightarrow> after M c s = s"
  by (simp add: after_def commit_def)

subsection \<open>Two mints of one token id\<close>

text \<open>
  Claim C7. From any state, two calls of \<open>mint\<close> by the owner for the same token id, with
  non-empty URIs \<open>ipfsURL1\<close> and then \<open>ipfsURL2\<close>, both return (provided the inherited
  \<^verbatim>\<open>_mint\<close> does not revert), and afterwards the history of the id is the old history
  followed by \<open>ipfsURL1\<close> and \<open>ipfsURL2\<close>: it is longer by exactly 2, the current URI is
  \<open>ipfsURL2\<close>, and \<open>ipfsURL1\<close> sits at the position just before the last.
\<close>

theorem mint_twice_history:
  assumes "sender = owner s" and "ipfsURL1 \<noteq> []" and "ipfsURL2 \<noteq> []"
    and "M account1 id' amount1 (balances s) = Inr b1"
    and "M account2 id' amount2 b1 = Inr b2"
  shows "\<exists>s1 s2.
           mint M sender account1 id' amount1 ipfsURL1 s = Inr s1 \<and>
           mint M sender account2 id' amount2 ipfsURL2 s1 = Inr s2 \<and>
           length (metadataHistory s2 id') = length (metadataHistory s id') + 2 \<and>
           tokenMetadata s2 id' = ipfsURL2 \<and>
           last (metadataHistory s2 id') = ipfsURL2 \<and>
           metadataHistory s2 id' ! (length (metadataHistory s2 id') - 2) = ipfsURL1 \<and>
           metadataHistory s2 id' = metadataHistory s id' @ [ipfsURL1, ipfsURL2]"
proof -
  let ?s1 = "s\<lparr>balances := b1,
                tokenMetadata := (tokenMetadata s)(id' := ipfsURL1),
                metadataHistory := (metadataHistory s)(id' := metadataHistory s id' @ [ipfsURL1])\<rparr>"
  let ?s2 = "?s1\<lparr>balances := b2,
                tokenMetadata := (tokenMetadata ?s1)(id' := ipfsURL2),
                metadataHistory := (metadataHistory ?s1)(id' := metadataHistory ?s1 id' @ [ipfsURL2])\<rparr>"
  have first: "mint M sender account1 id' amount1 ipfsURL1 s = Inr ?s1"
    using assms(1,2,4) by (rule mint_succeeds)
  have "sender = owner ?s1" and "M account2 id' amount2 (balances ?s1) = Inr b2"
    using assms(1,5) by simp_all
  with assms(3) have second: "mint M sender account2 id' amount2 ipfsURL2 ?s1 = Inr ?s2"
    by (intro mint_succeeds)
  have hist: "metadataHistory ?s2 id' = metadataHistory s id' @ [ipfsURL1, ipfsURL2]"
    by simp
  have "metadataHistory ?s2 id' ! (length (metadataHistory ?s2 id') - 2) = ipfsURL1"
    unfolding hist by (simp add: nth_append)
  moreover have "last (metadataHistory ?s2 id') = ipfsURL2"
    unfolding hist by simp
  moreover have "length (metadataHistory ?s2 id') = length (metadataHistory s id') + 2"
    unfolding hist by simp
  moreover have "tokenMetadata ?s2 id' = ipfsURL2"
    by simp
  ultimately show ?thesis
    using first second hist by blast
qed

theorem mint_twice_history_witness:
  "\<exists>s1 s2.
     mint checked_mint 1 2 7 1 ''ipfs://a'' (constructor 1 ''ipfs://base/'') = Inr s1 \<and>
     mint checked_mint 1 2 7 1 ''ipfs://b'' s1 = Inr s2 \<and>
     length (metadataHistory s2 7) = 2 \<and>
     tokenMetadata s2 7 = ''ipfs://b'' \<and>
     metadataHistory s2 7 = [''ipfs://a'', ''ipfs://b'']"
proof -
  let ?s = "constructor 1 ''ipfs://base/''"
  let ?b1 = "(balances ?s)(7 := (balances ?s 7)(2 := 1))"
  let ?b2 = "?b1(7 := (?b1 7)(2 := 2))"
  have o: "1 = owner ?s" and h: "metadataHistory ?s 7 = []"
    by (simp_all add: constructor_def)
  have m1: "checked_mint 2 7 1 (balances ?s) = Inr ?b1"
    by (simp add: checked_mint_def constructor_def)
  have m2: "checked_mint 2 7 1 ?b1 = Inr ?b2"
    by (simp add: checked_mint_def constructor_def)
  have ne: "''ipfs://a'' \<noteq> []" "''ipfs://b'' \<noteq> []"
    by simp_all
  from mint_twice_history [of 1 ?s "''ipfs://a''" "''ipfs://b''" checked_mint 2 7 1 ?b1 2 1 ?b2]
    o ne m1 m2
  obtain s1 s2 where first: "mint checked_mint 1 2 7 1 ''ipfs://a'' ?s = Inr s1"
    and second: "mint checked_mint 1 2 7 1 ''ipfs://b'' s1 = Inr s2"
    and cur: "tokenMetadata s2 7 = ''ipfs://b''"
    and hist: "metadataHistory s2 7 = metadataHistory ?s 7 @ [''ipfs://a'', ''ipfs://b'']"
    by blast
  from hist h have "metadataHistory s2 7 = [''ipfs://a'', ''ipfs://b'']"
    by simp
  moreover from this have "length (metadataHistory s2 7) = 2"
    by simp
  ultimately show ?thesis
    using first second cur by blast
qed

subsection \<open>The metadata pointer invariant\<close>

text \<open>
  Claim C8. For every token id the pointer invariant holds after the constructor and is
  preserved by every call (\<open>mint\<close> and \<open>updateTokenMetadata\<close> among them, whether they
  return or revert), hence holds in every state the contract can reach: the history ends
  with the current URI whenever it is non-empty. No call shortens a history (the old
  history is a prefix of the new one), a current URI that is set is never cleared, and
  once a \<open>mint\<close> for the id has returned, the current URI of the id is non-empty and its
  history is non-empty in every later state.
\<close>

theorem pointer_invariant:
  "pointer_inv (constructor deployer baseURI') i
   \<and> (pointer_inv s i \<longrightarrow> pointer_inv (after M c s) i)
   \<and> pointer_inv (run M cs (constructor deployer baseURI')) i
   \<and> prefix (metadataHistory s i) (metadataHistory (after M c s) i)
   \<and> prefix (metadataHistory s i) (metadataHistory (run M cs s) i)
   \<and> (tokenMetadata s i \<noteq> [] \<longrightarrow> tokenMetadata (run M cs s) i \<noteq> [])
   \<and> (metadataHistory s i \<noteq> [] \<longrightarrow> metadataHistory (run M cs s) i \<noteq> [])
   \<and> (mint M sender account i amount ipfsURL s = Inr s' \<longrightarrow>
        tokenMetadata (run M cs s') i \<noteq> [] \<and> metadataHistory (run M cs s') i \<noteq> [])"
proof -
  have grows: "metadataHistory t i \<noteq> [] \<Longrightarrow> metadataHistory (run M cs t) i \<noteq> []" for t
    using run_prefix [of t i M cs] by auto
  have minted: "tokenMetadata (run M cs s') i \<noteq> [] \<and> metadataHistory (run M cs s') i \<noteq> []"
    if "mint M sender account i amount ipfsURL s = Inr s'"
  proof -
    from mint_Inr [OF that] have "tokenMetadata s' i \<noteq> []" and "metadataHistory s' i \<noteq> []"
      by auto
    then show ?thesis by (simp add: run_minted grows)
  qed
  show ?thesis
  proof (intro conjI impI)
    show "pointer_inv (constructor deployer baseURI') i"
      by (rule constructor_pointer_inv)
    show "pointer_inv (after M c s) i" if "pointer_inv s i"
      using that by (rule after_pointer_inv)
    show "pointer_inv (run M cs (constructor deployer baseURI')) i"
      by (rule run_pointer_inv) (rule constructor_pointer_inv)
    show "prefix (metadataHistory s i) (metadataHistory (after M c s) i)"
      by (rule after_prefix)
    show "prefix (metadataHistory s i) (metadataHistory (run M cs s) i)"
      by (rule run_prefix)
    show "tokenMetadata (run M cs s) i \<noteq> []" if "tokenMetadata s i \<noteq> []"
      using that by (rule run_minted)
    show "metadataHistory (run M cs s) i \<noteq> []" if "metadataHistory s i \<noteq> []"
      using that by (rule grows)
    show "tokenMetadata (run M cs s') i \<noteq> []"
      if "mint M sender account i amount ipfsURL s = Inr s'"
      using minted [OF that] by simp
    show "metadataHistory (run M cs s') i \<noteq> []"
      if "mint M sender account i amount ipfsURL s = Inr s'"
      using minted [OF that] by simp
  qed
qed

theorem pointer_invariant_witness:
  "pointer_inv (after checked_mint (Mint 1 2 7 1 ''ipfs://a'') (constructor 1 ''ipfs://base/'')) 7
   \<and> metadataHistory (after checked_mint (Mint 1 2 7 1 ''ipfs://a'') (constructor 1 ''ipfs://base/'')) 7
       = [''ipfs://a'']
   \<and> tokenMetadata
       (run checked_mint [UpdateTokenMetadata 1 7 ''ipfs://b'']
          (after checked_mint (Mint 1 2 7 1 ''ipfs://a'') (constructor 1 ''ipfs://base/''))) 7 \<noteq> []"
proof -
  let ?s = "constructor 1 ''ipfs://base/''"
  let ?c = "Mint 1 2 7 1 ''ipfs://a''"
  let ?b = "(balances ?s)(7 := (balances ?s 7)(2 := 1))"
  have m: "checked_mint 2 7 1 (balances ?s) = Inr ?b"
    by (simp add: checked_mint_def constructor_def)
  have o: "1 = owner ?s"
    by (simp add: constructor_def)
  have ne: "''ipfs://a'' \<noteq> []"
    by simp
  have call: "mint checked_mint 1 2 7 1 ''ipfs://a'' ?s = Inr (after checked_mint ?c ?s)"
    using mint_succeeds [of 1 ?s "''ipfs://a''" checked_mint 2 7 1 ?b] o ne m
    by (simp add: after_def commit_def)
  have hist: "metadataHistory (after checked_mint ?c ?s) 7 = [''ipfs://a'']"
    using mint_succeeds [of 1 ?s "''ipfs://a''" checked_mint 2 7 1 ?b] o ne m
    by (simp add: after_def commit_def constructor_def)
  have inv0: "pointer_inv ?s 7"
    by (simp add: pointer_inv_def constructor_def)
  from pointer_invariant [of 1 "''ipfs://base/''" 7 ?s checked_mint ?c
      "[UpdateTokenMetadata 1 7 ''ipfs://b'']" 1 2 1 "''ipfs://a''" "after checked_mint ?c ?s"]
    inv0 call hist
  show ?thesis by blast
qed

subsection \<open>Updating a token id that was never minted\<close>

text \<open>
  Claim C9, as stated, fails: the owner's call of \<open>updateTokenMetadata\<close> with an empty URI
  on a never-minted id is rejected by the guard on the URI, which comes before the guard
  on the id, so the error is not the not-found one.
\<close>

theorem update_unminted_counterexample:
  "metadataHistory (constructor 1 ''ipfs://base/'') 7 = []
   \<and> tokenMetadata (constructor 1 ''ipfs://base/'') 7 = []
   \<and> updateTokenMetadata 1 7 [] (constructor 1 ''ipfs://base/'') = Inl IPFS_URL_cannot_be_empty
   \<and> updateTokenMetadata 1 7 [] (constructor 1 ''ipfs://base/'') \<noteq> Inl Token_ID_does_not_exist"
  by (simp add: updateTokenMetadata_def constructor_def)

text \<open>
  Claim C9, amended. In every reachable state, a call of \<open>updateTokenMetadata\<close> on an id
  whose history is empty (the id was never minted) reverts and leaves the whole storage as
  it was. The error is the not-found one when the caller is the owner and the new URI is
  non-empty; a caller who is not the owner gets the authorisation error, and the owner
  with an empty URI the empty-URI error.
\<close>

theorem update_unminted_fails:
  assumes "s = run M cs (constructor deployer baseURI')"
    and "metadataHistory s id' = []"
  shows "(\<exists>e. updateTokenMetadata sender id' newIpfsURL s = Inl e)
       \<and> after M (UpdateTokenMetadata sender id' newIpfsURL) s = s
       \<and> (sender = owner s \<and> newIpfsURL \<noteq> [] \<longrightarrow>
            updateTokenMetadata sender id' newIpfsURL s = Inl Token_ID_does_not_exist)
       \<and> (sender = owner s \<and> newIpfsURL = [] \<longrightarrow>
            updateTokenMetadata sender id' newIpfsURL s = Inl IPFS_URL_cannot_be_empty)
       \<and> (sender \<noteq> owner s \<longrightarrow>
            updateTokenMetadata sender id' newIpfsURL s = Inl (OwnableUnauthorizedAccount sender))"
proof -
  have "pointer_inv s id'"
    unfolding assms(1) by (rule run_pointer_inv) (rule constructor_pointer_inv)
  with assms(2) have unminted: "tokenMetadata s id' = []"
    by (simp add: pointer_inv_def)
  then have fails: "\<exists>e. updateTokenMetadata sender id' newIpfsURL s = Inl e"
    by (simp add: updateTokenMetadata_def)
  then have "after M (UpdateTokenMetadata sender id' newIpfsURL) s = s"
    by (auto simp: after_def commit_def)
  with fails unminted show ?thesis
    by (simp add: updateTokenMetadata_def)
qed

theorem update_unminted_fails_witness:
  "updateTokenMetadata 1 7 ''ipfs://b'' (run checked_mint [Mint 1 2 5 1 ''ipfs://a''] (constructor 1 ''ipfs://base/''))
     = Inl Token_ID_does_not_exist
   \<and> after checked_mint (UpdateTokenMetadata 1 7 ''ipfs://b'')
       (run checked_mint [Mint 1 2 5 1 ''ipfs://a''] (constructor 1 ''ipfs://base/''))
     = run checked_mint [Mint 1 2 5 1 ''ipfs://a''] (constructor 1 ''ipfs://base/'')"
proof -
  let ?s = "run checked_mint [Mint 1 2 5 1 ''ipfs://a''] (constructor 1 ''ipfs://base/'')"
  have h: "metadataHistory ?s 7 = []" and o: "1 = owner ?s"
    by (simp_all add: after_def commit_def mint_def checked_mint_def constructor_def)
  from update_unminted_fails [OF refl h, of 1 "''ipfs://b''"] o
  show ?thesis by simp
qed

subsection \<open>What each mutator leaves alone\<close>

text \<open>
  Claim C10. A call of \<open>updateBaseURI\<close> that returns changes the base URI and nothing
  else. A call of \<open>mint\<close> or of \<open>updateTokenMetadata\<close> for a token id that returns leaves
  the base URI, the owner, and the current URI and history of every other id as they were
  (\<open>updateTokenMetadata\<close> leaves the balances too). A call that reverts changes nothing.
\<close>

theorem mutators_frame:
  "(updateBaseURI sender newBaseURI s = Inr s' \<longrightarrow>
      s' = s\<lparr>baseURI := newBaseURI\<rparr> \<and> tokenMetadata s' = tokenMetadata s \<and>
      metadataHistory s' = metadataHistory s \<and> owner s' = owner s \<and> balances s' = balances s)
   \<and> (mint M sender account id' amount ipfsURL s = Inr s' \<longrightarrow>
      baseURI s' = baseURI s \<and> owner s' = owner s \<and>
      (\<forall>j. j \<noteq> id' \<longrightarrow> tokenMetadata s' j = tokenMetadata s j \<and>
                         metadataHistory s' j = metadataHistory s j))
   \<and> (updateTokenMetadata sender id' ipfsURL s = Inr s' \<longrightarrow>
      baseURI s' = baseURI s \<and> owner s' = owner s \<and> balances s' = balances s \<and>
      (\<forall>j. j \<noteq> id' \<longrightarrow> tokenMetadata s' j = tokenMetadata s j \<and>
                         metadataHistory s' j = metadataHistory s j))
   \<and> (transact M c s = Inl e \<longrightarrow> after M c s = s)"
proof -
  have "updateBaseURI sender newBaseURI s = Inr s' \<longrightarrow>
      s' = s\<lparr>baseURI := newBaseURI\<rparr> \<and> tokenMetadata s' = tokenMetadata s \<and>
      metadataHistory s' = metadataHistory s \<and> owner s' = owner s \<and> balances s' = balances s"
    using updateBaseURI_Inr [of sender newBaseURI s s'] by auto
  moreover have "mint M sender account id' amount ipfsURL s = Inr s' \<longrightarrow>
      baseURI s' = baseURI s \<and> owner s' = owner s \<and>
      (\<forall>j. j \<noteq> id' \<longrightarrow> tokenMetadata s' j = tokenMetadata s j \<and>
                         metadataHistory s' j = metadataHistory s j)"
    using mint_Inr [of M sender account id' amount ipfsURL s s'] by auto
  moreover have "updateTokenMetadata sender id' ipfsURL s = Inr s' \<longrightarrow>
      baseURI s' = baseURI s \<and> owner s' = owner s \<and> balances s' = balances s \<and>
      (\<forall>j. j \<noteq> id' \<longrightarrow> tokenMetadata s' j = tokenMetadata s j \<and>
                         metadataHistory s' j = metadataHistory s j)"
    using updateTokenMetadata_Inr [of sender id' ipfsURL s s'] by auto
  moreover have "transact M c s = Inl e \<longrightarrow> after M c s = s"
    by (simp add: reverted_call_keeps_state)
  ultimately show ?thesis by blast
qed

theorem mutators_frame_witness:
  "(\<exists>s'. updateBaseURI 1 ''ipfs://new/'' (constructor 1 ''ipfs://base/'') = Inr s' \<and>
          baseURI s' = ''ipfs://new/'' \<and>
          tokenMetadata s' = tokenMetadata (constructor 1 ''ipfs://base/'') \<and>
          metadataHistory s' = metadataHistory (constructor 1 ''ipfs://base/''))
   \<and> (\<exists>s'. mint checked_mint 1 2 7 1 ''ipfs://a'' (constructor 1 ''ipfs://base/'') = Inr s' \<and>
          baseURI s' = ''ipfs://base/'' \<and> tokenMetadata s' 8 = [] \<and> metadataHistory s' 8 = [] \<and>
          (\<exists>s''. updateTokenMetadata 1 7 ''ipfs://b'' s' = Inr s'' \<and>
             baseURI s'' = ''ipfs://base/'' \<and> balances s'' = balances s' \<and>
             tokenMetadata s'' 8 = [] \<and> metadataHistory s'' 8 = []))
   \<and> after checked_mint (UpdateTokenMetadata 2 7 ''ipfs://b'') (constructor 1 ''ipfs://base/'')
       = constructor 1 ''ipfs://base/''"
proof -
  let ?s = "constructor 1 ''ipfs://base/''"
  let ?b = "(balances ?s)(7 := (balances ?s 7)(2 := 1))"
  let ?s1 = "?s\<lparr>balances := ?b,
                 tokenMetadata := (tokenMetadata ?s)(7 := ''ipfs://a''),
                 metadataHistory := (metadataHistory ?s)(7 := metadataHistory ?s 7 @ [''ipfs://a''])\<rparr>"
  let ?s2 = "?s1\<lparr>metadataHistory := (metadataHistory ?s1)(7 := metadataHistory ?s1 7 @ [''ipfs://b'']),
                  tokenMetadata := (tokenMetadata ?s1)(7 := ''ipfs://b'')\<rparr>"
  have base: "updateBaseURI 1 ''ipfs://new/'' ?s = Inr (?s\<lparr>baseURI := ''ipfs://new/''\<rparr>)"
    by (simp add: updateBaseURI_def setBaseURI_def constructor_def)
  have minted: "mint checked_mint 1 2 7 1 ''ipfs://a'' ?s = Inr ?s1"
    by (simp add: mint_def checked_mint_def constructor_def)
  have updated: "updateTokenMetadata 1 7 ''ipfs://b'' ?s1 = Inr ?s2"
    by (simp add: updateTokenMetadata_def constructor_def)
  have reverted: "transact checked_mint (UpdateTokenMetadata 2 7 ''ipfs://b'') ?s
                    = Inl (OwnableUnauthorizedAccount 2)"
    by (simp add: updateTokenMetadata_def constructor_def)
  have old: "baseURI ?s = ''ipfs://base/''" "tokenMetadata ?s 8 = []" "metadataHistory ?s 8 = []"
    by (simp_all add: constructor_def)
  have eight: "(8 :: uint256) \<noteq> 7"
    by simp
  from mutators_frame [of 1 "''ipfs://new/''" ?s "?s\<lparr>baseURI := ''ipfs://new/''\<rparr>"] base
  have one: "\<exists>s'. updateBaseURI 1 ''ipfs://new/'' ?s = Inr s' \<and> baseURI s' = ''ipfs://new/'' \<and>
          tokenMetadata s' = tokenMetadata ?s \<and> metadataHistory s' = metadataHistory ?s"
    by simp
  from mutators_frame [of 1 _ ?s ?s1 checked_mint 2 7 1 "''ipfs://a''"] minted old eight
  have two: "baseURI ?s1 = ''ipfs://base/'' \<and> tokenMetadata ?s1 8 = [] \<and> metadataHistory ?s1 8 = []"
    by metis
  from mutators_frame [of 1 _ ?s1 ?s2 _ _ 7 _ "''ipfs://b''"] updated two eight
  have three: "baseURI ?s2 = ''ipfs://base/'' \<and> balances ?s2 = balances ?s1 \<and>
          tokenMetadata ?s2 8 = [] \<and> metadataHistory ?s2 8 = []"
    by metis
  from mutators_frame [of _ _ ?s _ checked_mint _ _ _ _ "UpdateTokenMetadata 2 7 ''ipfs://b''"
      "OwnableUnauthorizedAccount 2"] reverted
  have four: "after checked_mint (UpdateTokenMetadata 2 7 ''ipfs://b'') ?s = ?s"
    by blast
  from one minted two updated three four show ?thesis
    by blast
qed

section \<open>Properties of the upload module\<close>

lemma steps_of_Nil: "steps_of [] = []"
  by (simp add: steps_of_def)

lemma steps_of_Cons:
  "steps_of (e # es) = (case step_of e of None \<Rightarrow> steps_of es | Some st \<Rightarrow> st # steps_of es)"
  by (simp add: steps_of_def map_filter_simps split: option.splits)

lemma steps_of_append: "steps_of (xs @ ys) = steps_of xs @ steps_of ys"
  by (induction xs) (simp_all add: steps_of_Nil steps_of_Cons split: option.splits)

lemma mint_calls_append: "mint_calls (xs @ ys) = mint_calls xs @ mint_calls ys"
  by (simp add: mint_calls_def)

lemma upload_keys_missing:
  assumes "falsy (pinataApiKey m) \<or> falsy (pinataSecretApiKey m)"
  shows "uploadToIPFS m sv fs filePath =
           (Inl PinataKeysNotConfigured,
            [ConsoleError ''Erro ao fazer upload para o IPFS:'' PinataKeysNotConfigured])"
  using assms by (auto simp: uploadToIPFS_def uploadToIPFS_try_def)

lemma upload_file_missing:
  assumes "\<not> falsy (pinataApiKey m)" and "\<not> falsy (pinataSecretApiKey m)"
    and "\<not> existsSync fs filePath"
  shows "uploadToIPFS m sv fs filePath =
           (Inl (FileNotFound filePath),
            [ExistsSync filePath,
             ConsoleError ''Erro ao fazer upload para o IPFS:'' (FileNotFound filePath)])"
  using assms by (simp add: uploadToIPFS_def uploadToIPFS_try_def)

lemma upload_pin_fails:
  assumes "\<not> falsy (pinataApiKey m)" and "\<not> falsy (pinataSecretApiKey m)"
    and "existsSync fs filePath"
    and "pinFileToIPFS sv (ReadStream filePath) (options_for filePath) = Inl e"
  shows "uploadToIPFS m sv fs filePath =
           (Inl e,
            [ExistsSync filePath, CreateReadStream filePath,
             PinFileToIPFS (ReadStream filePath) (options_for filePath),
             ConsoleError ''Erro ao fazer upload para o IPFS:'' e])"
  using assms by (simp add: uploadToIPFS_def uploadToIPFS_try_def options_for_def)

lemma upload_returns:
  assumes "\<not> falsy (pinataApiKey m)" and "\<not> falsy (pinataSecretApiKey m)"
    and "existsSync fs filePath"
    and "pinFileToIPFS sv (ReadStream filePath) (options_for filePath) = Inr result"
  shows "uploadToIPFS m sv fs filePath =
           (Inr (plus_string (gatewayURL m) (IpfsHash result)),
            [ExistsSync filePath, CreateReadStream filePath,
             PinFileToIPFS (ReadStream filePath) (options_for filePath),
             ConsoleLog [''Arquivo enviado para IPFS com sucesso!''],
             ConsoleLog [''ipfsCID: '', IpfsHash result]])"
  using assms by (simp add: uploadToIPFS_def uploadToIPFS_try_def options_for_def)

lemma upload_cases:
  obtains
    (nokeys) "falsy (pinataApiKey m) \<or> falsy (pinataSecretApiKey m)"
  | (absent) "\<not> falsy (pinataApiKey m)" "\<not> falsy (pinataSecretApiKey m)" "\<not> existsSync fs filePath"
  | (pin) e where "\<not> falsy (pinataApiKey m)" "\<not> falsy (pinataSecretApiKey m)"
      "existsSync fs filePath"
      "pinFileToIPFS sv (ReadStream filePath) (options_for filePath) = Inl e"
  | (ok) result where "\<not> falsy (pinataApiKey m)" "\<not> falsy (pinataSecretApiKey m)"
      "existsSync fs filePath"
      "pinFileToIPFS sv (ReadStream filePath) (options_for filePath) = Inr result"
  by (cases "pinFileToIPFS sv (ReadStream filePath) (options_for filePath)") blast+

lemma upload_no_steps: "steps_of (snd (uploadToIPFS m sv fs filePath)) = []"
  by (cases rule: upload_cases [where m = m and fs = fs and filePath = filePath and sv = sv])
     (simp_all add: upload_keys_missing upload_file_missing upload_pin_fails upload_returns
        steps_of_Nil steps_of_Cons)

lemma upload_no_mint: "mint_calls (snd (uploadToIPFS m sv fs filePath)) = []"
  by (cases rule: upload_cases [where m = m and fs = fs and filePath = filePath and sv = sv])
     (simp_all add: upload_keys_missing upload_file_missing upload_pin_fails upload_returns
        mint_calls_def)

lemma upload_only_existence:
  "existsSync fs filePath = existsSync fs' filePath \<Longrightarrow>
     uploadToIPFS m sv fs filePath = uploadToIPFS m sv fs' filePath"
  by (simp add: uploadToIPFS_def uploadToIPFS_try_def)

subsection \<open>The guards before the network call\<close>

text \<open>
  Claim C5. \<open>uploadToIPFS\<close> checks the credentials and the existence of the file before it
  calls the pinning service. When the key or the secret is absent the call fails with the
  missing-credentials error; when the file does not exist the call fails with one of the
  two guard errors, the file-not-found error whenever the credentials are present (the
  credentials are checked first). In either case the pinning service is not called; it is
  called, and then exactly once, only if both guards pass.
\<close>

theorem upload_guards:
  "(falsy (pinataApiKey m) \<or> falsy (pinataSecretApiKey m) \<longrightarrow>
      fst (uploadToIPFS m sv fs filePath) = Inl PinataKeysNotConfigured \<and>
      network_calls (snd (uploadToIPFS m sv fs filePath)) = [])
   \<and> (\<not> existsSync fs filePath \<longrightarrow>
      (fst (uploadToIPFS m sv fs filePath) = Inl PinataKeysNotConfigured \<or>
       fst (uploadToIPFS m sv fs filePath) = Inl (FileNotFound filePath)) \<and>
      (\<not> falsy (pinataApiKey m) \<and> \<not> falsy (pinataSecretApiKey m) \<longrightarrow>
         fst (uploadToIPFS m sv fs filePath) = Inl (FileNotFound filePath)) \<and>
      network_calls (snd (uploadToIPFS m sv fs filePath)) = [])
   \<and> (network_calls (snd (uploadToIPFS m sv fs filePath)) \<noteq> [] \<longrightarrow>
      \<not> falsy (pinataApiKey m) \<and> \<not> falsy (pinataSecretApiKey m) \<and> existsSync fs filePath \<and>
      network_calls (snd (uploadToIPFS m sv fs filePath))
        = [PinFileToIPFS (ReadStream filePath) (options_for filePath)])"
  by (cases rule: upload_cases [where m = m and fs = fs and filePath = filePath and sv = sv])
     (auto simp: upload_keys_missing upload_file_missing upload_pin_fails upload_returns
        network_calls_def)

theorem upload_guards_witness:
  "fst (uploadToIPFS
          \<lparr>pinataApiKey = None, pinataSecretApiKey = Some ''secret'',
           gatewayURL = Some ''https://gateway.pinata.cloud/ipfs/''\<rparr>
          mock_services [''/app/metadataNFTree'' \<mapsto> ''{}''] ''/app/metadataNFTree'')
     = Inl PinataKeysNotConfigured
   \<and> fst (uploadToIPFS (load_uploadToIPFS mock_env) mock_services Map.empty ''/app/metadataNFTree'')
     = Inl (FileNotFound ''/app/metadataNFTree'')
   \<and> network_calls
        (snd (uploadToIPFS (load_uploadToIPFS mock_env) mock_services Map.empty ''/app/metadataNFTree''))
     = []
   \<and> network_calls
        (snd (uploadToIPFS (load_uploadToIPFS mock_env) mock_services (files mock_world)
                ''/app/metadataNFTree''))
     = [PinFileToIPFS (ReadStream ''/app/metadataNFTree'') (options_for ''/app/metadataNFTree'')]"
proof -
  let ?m1 = "\<lparr>pinataApiKey = None, pinataSecretApiKey = Some ''secret'',
              gatewayURL = Some ''https://gateway.pinata.cloud/ipfs/''\<rparr>"
  let ?m2 = "load_uploadToIPFS mock_env"
  let ?p = "''/app/metadataNFTree''"
  have a: "falsy (pinataApiKey ?m1) \<or> falsy (pinataSecretApiKey ?m1)"
    by (simp add: falsy_def)
  have b: "\<not> falsy (pinataApiKey ?m2) \<and> \<not> falsy (pinataSecretApiKey ?m2)"
    by (simp add: falsy_def load_uploadToIPFS_def mock_env_def)
  have c: "\<not> existsSync Map.empty ?p"
    by (simp add: existsSync_def)
  have d: "network_calls (snd (uploadToIPFS ?m2 mock_services (files mock_world) ?p)) \<noteq> []"
    by (simp add: uploadToIPFS_def uploadToIPFS_try_def load_uploadToIPFS_def mock_env_def
        mock_world_def mock_services_def falsy_def existsSync_def network_calls_def)
  from upload_guards [of ?m1 mock_services "[?p \<mapsto> ''{}'']" ?p] a
  have "fst (uploadToIPFS ?m1 mock_services [?p \<mapsto> ''{}''] ?p) = Inl PinataKeysNotConfigured"
    by blast
  moreover from upload_guards [of ?m2 mock_services Map.empty ?p] b c
  have "fst (uploadToIPFS ?m2 mock_services Map.empty ?p) = Inl (FileNotFound ?p)
        \<and> network_calls (snd (uploadToIPFS ?m2 mock_services Map.empty ?p)) = []"
    by blast
  moreover from upload_guards [of ?m2 mock_services "files mock_world" ?p] d
  have "network_calls (snd (uploadToIPFS ?m2 mock_services (files mock_world) ?p))
          = [PinFileToIPFS (ReadStream ?p) (options_for ?p)]"
    by blast
  ultimately show ?thesis by blast
qed

subsection \<open>The gateway setting is not checked\<close>

text \<open>
  Claim C2 does not hold for the gateway base URL: the module checks the key and the
  secret, but not \<^verbatim>\<open>PINATA_GATEWAY_URL\<close>. With the key and the secret set, the gateway
  unset, an existing file and a pinning service that answers \<^verbatim>\<open>Qm123\<close>, the upload
  returns normally, and its result is the text "undefined" followed by the identifier.
\<close>

theorem upload_without_gateway:
  "uploadToIPFS
     (load_uploadToIPFS [''PINATA_API_KEY'' \<mapsto> ''key'', ''PINATA_API_SECRET'' \<mapsto> ''secret''])
     mock_services (files mock_world) ''/app/metadataNFTree''
   = (Inr ''undefinedQm123'',
      [ExistsSync ''/app/metadataNFTree'', CreateReadStream ''/app/metadataNFTree'',
       PinFileToIPFS (ReadStream ''/app/metadataNFTree'')
         \<lparr>pinataMetadata_name = ''metadataNFTree'', pinataOptions_cidVersion = 0\<rparr>,
       ConsoleLog [''Arquivo enviado para IPFS com sucesso!''],
       ConsoleLog [''ipfsCID: '', ''Qm123'']])"
  by (simp add: uploadToIPFS_def uploadToIPFS_try_def load_uploadToIPFS_def falsy_def
      existsSync_def plus_string_def basename_def mock_services_def mock_world_def)

section \<open>Properties of the orchestrating script\<close>

lemma mint_calls_Nil: "mint_calls [] = []"
  by (simp add: mint_calls_def)

lemma mint_calls_Cons:
  "mint_calls (e # es) =
     (case e of Call_mintNFTree to tokenId amount tokenURI \<Rightarrow> e # mint_calls es
              | _ \<Rightarrow> mint_calls es)"
  by (simp add: mint_calls_def split: event.splits)

lemmas workflow_unfold =
  runWorkflow_def runWorkflow_try_def saveAttestationToJson_def writeFileSync_def
  attestation_json_def metadataNFTree_def written_def Let_def
  steps_of_append steps_of_Cons steps_of_Nil mint_calls_append mint_calls_Cons mint_calls_Nil

lemma quote_name: "QuoteJSONString ''name'' = [CHR 0x22] @ ''name'' @ [CHR 0x22]"
  by (simp add: QuoteJSONString_def quote_code_unit_def)

lemma quote_value: "QuoteJSONString ''value'' = [CHR 0x22] @ ''value'' @ [CHR 0x22]"
  by (simp add: QuoteJSONString_def quote_code_unit_def)

lemma quote_AttestationUID:
  "QuoteJSONString ''AttestationUID'' = [CHR 0x22] @ ''AttestationUID'' @ [CHR 0x22]"
  by (simp add: QuoteJSONString_def quote_code_unit_def)

lemma stringify_record:
  "JSON_stringify (JObject [(''name'', JString ''AttestationUID''), (''value'', JString uid)]) 2
     = attestation_record_text uid"
  by (simp add: JSON_stringify_def attestation_record_text_def quote_name quote_value
      quote_AttestationUID numeral_2_eq_2)

lemma written_record: "written W uid (attestation_json W) = Some (attestation_record_text uid)"
  by (simp add: written_def stringify_record)

lemma written_other: "p \<noteq> attestation_json W \<Longrightarrow> written W uid p = files W p"
  by (simp add: written_def)

subsection \<open>What a run does, stage by stage\<close>

lemma run_attest_fails:
  assumes "createAttestation sv = Inl e"
  shows "fst (runWorkflow_try W sv) = Inl e
       \<and> steps_of (events (runWorkflow W sv)) = [Attest]
       \<and> mint_calls (events (runWorkflow W sv)) = []
       \<and> files_after (runWorkflow W sv) = files W"
  using assms by (simp add: workflow_unfold)

lemma run_persist_fails:
  assumes "createAttestation sv = Inr uid"
    and "write_error W (attestation_json W) = Some e"
  shows "fst (runWorkflow_try W sv) = Inl e
       \<and> steps_of (events (runWorkflow W sv)) = [Attest, Persist]
       \<and> mint_calls (events (runWorkflow W sv)) = []
       \<and> files_after (runWorkflow W sv) = files W"
  using assms by (simp add: workflow_unfold)

lemma run_upload_fails:
  assumes "createAttestation sv = Inr uid"
    and "write_error W (attestation_json W) = None"
    and "fst (uploadToIPFS (load_uploadToIPFS (env W)) sv (written W uid) (metadataNFTree W)) = Inl e"
  shows "fst (runWorkflow_try W sv) = Inl e
       \<and> steps_of (events (runWorkflow W sv)) = [Attest, Persist, Upload]
       \<and> mint_calls (events (runWorkflow W sv)) = []
       \<and> files_after (runWorkflow W sv) = written W uid"
proof -
  obtain evs where
    "uploadToIPFS (load_uploadToIPFS (env W)) sv (written W uid) (metadataNFTree W) = (Inl e, evs)"
    using assms(3) by (metis prod.collapse)
  with assms(1,2)
    upload_no_steps [of "load_uploadToIPFS (env W)" sv "written W uid" "metadataNFTree W"]
    upload_no_mint [of "load_uploadToIPFS (env W)" sv "written W uid" "metadataNFTree W"]
  show ?thesis by (simp add: workflow_unfold)
qed

lemma run_recipient_missing:
  assumes "createAttestation sv = Inr uid"
    and "write_error W (attestation_json W) = None"
    and "fst (uploadToIPFS (load_uploadToIPFS (env W)) sv (written W uid) (metadataNFTree W)) = Inr url"
    and "falsy (env W ''RECIPIENT_ADDRESS'')"
  shows "fst (runWorkflow_try W sv) = Inl RecipientNotConfigured
       \<and> steps_of (events (runWorkflow W sv)) = [Attest, Persist, Upload, ReadRecipient]
       \<and> mint_calls (events (runWorkflow W sv)) = []
       \<and> files_after (runWorkflow W sv) = written W uid"
proof -
  obtain evs where
    "uploadToIPFS (load_uploadToIPFS (env W)) sv (written W uid) (metadataNFTree W) = (Inr url, evs)"
    using assms(3) by (metis prod.collapse)
  with assms(1,2,4)
    upload_no_steps [of "load_uploadToIPFS (env W)" sv "written W uid" "metadataNFTree W"]
    upload_no_mint [of "load_uploadToIPFS (env W)" sv "written W uid" "metadataNFTree W"]
  show ?thesis by (simp add: workflow_unfold falsy_def split: option.splits)
qed

lemma run_mint_fails:
  assumes "createAttestation sv = Inr uid"
    and "write_error W (attestation_json W) = None"
    and "fst (uploadToIPFS (load_uploadToIPFS (env W)) sv (written W uid) (metadataNFTree W)) = Inr url"
    and "env W ''RECIPIENT_ADDRESS'' = Some to" and "to \<noteq> []"
    and "mintNFTree sv to 2 1 url = Inl e"
  shows "fst (runWorkflow_try W sv) = Inl e
       \<and> steps_of (events (runWorkflow W sv)) = [Attest, Persist, Upload, ReadRecipient, MintToken]
       \<and> mint_calls (events (runWorkflow W sv)) = [Call_mintNFTree to 2 1 url]
       \<and> files_after (runWorkflow W sv) = written W uid"
proof -
  obtain evs where
    "uploadToIPFS (load_uploadToIPFS (env W)) sv (written W uid) (metadataNFTree W) = (Inr url, evs)"
    using assms(3) by (metis prod.collapse)
  with assms(1,2,4,5,6)
    upload_no_steps [of "load_uploadToIPFS (env W)" sv "written W uid" "metadataNFTree W"]
    upload_no_mint [of "load_uploadToIPFS (env W)" sv "written W uid" "metadataNFTree W"]
  show ?thesis by (simp add: workflow_unfold)
qed

lemma run_completes:
  assumes "createAttestation sv = Inr uid"
    and "write_error W (attestation_json W) = None"
    and "fst (uploadToIPFS (load_uploadToIPFS (env W)) sv (written W uid) (metadataNFTree W)) = Inr url"
    and "env W ''RECIPIENT_ADDRESS'' = Some to" and "to \<noteq> []"
    and "mintNFTree sv to 2 1 url = Inr mintReceipt"
  shows "fst (runWorkflow_try W sv) = Inr ()
       \<and> steps_of (events (runWorkflow W sv)) = [Attest, Persist, Upload, ReadRecipient, MintToken]
       \<and> mint_calls (events (runWorkflow W sv)) = [Call_mintNFTree to 2 1 url]
       \<and> files_after (runWorkflow W sv) = written W uid"
proof -
  obtain evs where
    "uploadToIPFS (load_uploadToIPFS (env W)) sv (written W uid) (metadataNFTree W) = (Inr url, evs)"
    using assms(3) by (metis prod.collapse)
  with assms(1,2,4,5,6)
    upload_no_steps [of "load_uploadToIPFS (env W)" sv "written W uid" "metadataNFTree W"]
    upload_no_mint [of "load_uploadToIPFS (env W)" sv "written W uid" "metadataNFTree W"]
  show ?thesis by (simp add: workflow_unfold)
qed

text \<open>Every run is one of the six above.\<close>

lemma run_cases:
  obtains
    (attest) e where "createAttestation sv = Inl e"
  | (persist) uid e where "createAttestation sv = Inr uid"
      "write_error W (attestation_json W) = Some e"
  | (upload) uid e where "createAttestation sv = Inr uid"
      "write_error W (attestation_json W) = None"
      "fst (uploadToIPFS (load_uploadToIPFS (env W)) sv (written W uid) (metadataNFTree W)) = Inl e"
  | (recipient) uid url where "createAttestation sv = Inr uid"
      "write_error W (attestation_json W) = None"
      "fst (uploadToIPFS (load_uploadToIPFS (env W)) sv (written W uid) (metadataNFTree W)) = Inr url"
      "falsy (env W ''RECIPIENT_ADDRESS'')"
  | (minting) uid url to e where "createAttestation sv = Inr uid"
      "write_error W (attestation_json W) = None"
      "fst (uploadToIPFS (load_uploadToIPFS (env W)) sv (written W uid) (metadataNFTree W)) = Inr url"
      "env W ''RECIPIENT_ADDRESS'' = Some to" "to \<noteq> []"
      "mintNFTree sv to 2 1 url = Inl e"
  | (complete) uid url to mintReceipt where "createAttestation sv = Inr uid"
      "write_error W (attestation_json W) = None"
      "fst (uploadToIPFS (load_uploadToIPFS (env W)) sv (written W uid) (metadataNFTree W)) = Inr url"
      "env W ''RECIPIENT_ADDRESS'' = Some to" "to \<noteq> []"
      "mintNFTree sv to 2 1 url = Inr mintReceipt"
proof (cases "createAttestation sv")
  case (Inl e)
  then show ?thesis by (rule attest)
next
  case uid: (Inr uid)
  show ?thesis
  proof (cases "write_error W (attestation_json W)")
    case (Some e)
    with uid show ?thesis by (rule persist)
  next
    case none: None
    show ?thesis
    proof (cases "fst (uploadToIPFS (load_uploadToIPFS (env W)) sv (written W uid) (metadataNFTree W))")
      case (Inl e)
      with uid none show ?thesis by (rule upload)
    next
      case url: (Inr url)
      show ?thesis
      proof (cases "falsy (env W ''RECIPIENT_ADDRESS'')")
        case True
        with uid none url show ?thesis by (rule recipient)
      next
        case False
        then obtain to where to: "env W ''RECIPIENT_ADDRESS'' = Some to" "to \<noteq> []"
          by (auto simp: falsy_def split: option.splits)
        show ?thesis
        proof (cases "mintNFTree sv to 2 1 url")
          case (Inl e)
          with uid none url to show ?thesis by (rule minting)
        next
          case (Inr mintReceipt)
          with uid none url to show ?thesis by (rule complete)
        qed
      qed
    qed
  qed
qed

lemma run_success_files:
  assumes "createAttestation sv = Inr uid" and "fst (runWorkflow_try W sv) = Inr ()"
  shows "files_after (runWorkflow W sv) = written W uid"
proof (cases rule: run_cases [where sv = sv and W = W])
  case (attest e)
  with assms show ?thesis by simp
next
  case (persist uid' e)
  from run_persist_fails [OF this] assms(2) show ?thesis by simp
next
  case (upload uid' e)
  from run_upload_fails [OF this] assms(2) show ?thesis by simp
next
  case (recipient uid' url)
  from run_recipient_missing [OF this] assms(2) show ?thesis by simp
next
  case (minting uid' url to e)
  from run_mint_fails [OF this] assms(2) show ?thesis by simp
next
  case (complete uid' url to mintReceipt)
  from run_completes [OF this] complete(1) assms(1) show ?thesis by simp
qed

lemma mock_upload:
  "uploadToIPFS (load_uploadToIPFS mock_env) mock_services (written mock_world uid)
     (metadataNFTree mock_world)
   = (Inr ''https://gateway.pinata.cloud/ipfs/Qm123'',
      [ExistsSync ''/app/metadataNFTree'', CreateReadStream ''/app/metadataNFTree'',
       PinFileToIPFS (ReadStream ''/app/metadataNFTree'') (options_for ''/app/metadataNFTree''),
       ConsoleLog [''Arquivo enviado para IPFS com sucesso!''],
       ConsoleLog [''ipfsCID: '', ''Qm123'']])"
  by (simp add: uploadToIPFS_def uploadToIPFS_try_def load_uploadToIPFS_def mock_env_def
      mock_services_def mock_world_def written_def metadataNFTree_def attestation_json_def
      path_join_def falsy_def existsSync_def plus_string_def options_for_def)

subsection \<open>The order of the steps\<close>

text \<open>
  Claim C1. In every run the steps performed are an initial part of the sequence create
  attestation, write the record file, upload, read the recipient, mint, each at most once
  and in this order. A step that raises an error is the last step of the run: no later
  step is invoked, and what the earlier steps did stays (the record file written by the
  second step is still there after a failed upload, a missing recipient or a failed mint).
  When the recipient setting is absent or empty, \<open>mintNFTree\<close> is not called at all.
\<close>

theorem steps_in_order:
  "prefix (steps_of (events (runWorkflow W sv)))
     [Attest, Persist, Upload, ReadRecipient, MintToken]
   \<and> (createAttestation sv = Inl e \<longrightarrow>
        steps_of (events (runWorkflow W sv)) = [Attest] \<and>
        files_after (runWorkflow W sv) = files W)
   \<and> (createAttestation sv = Inr uid \<and> write_error W (attestation_json W) = Some e \<longrightarrow>
        steps_of (events (runWorkflow W sv)) = [Attest, Persist])
   \<and> (createAttestation sv = Inr uid \<and> write_error W (attestation_json W) = None \<and>
      fst (uploadToIPFS (load_uploadToIPFS (env W)) sv (written W uid) (metadataNFTree W)) = Inl e \<longrightarrow>
        steps_of (events (runWorkflow W sv)) = [Attest, Persist, Upload] \<and>
        files_after (runWorkflow W sv) = written W uid)
   \<and> (createAttestation sv = Inr uid \<and> write_error W (attestation_json W) = None \<and>
      fst (uploadToIPFS (load_uploadToIPFS (env W)) sv (written W uid) (metadataNFTree W)) = Inr url \<and>
      falsy (env W ''RECIPIENT_ADDRESS'') \<longrightarrow>
        steps_of (events (runWorkflow W sv)) = [Attest, Persist, Upload, ReadRecipient] \<and>
        fst (runWorkflow_try W sv) = Inl RecipientNotConfigured \<and>
        files_after (runWorkflow W sv) = written W uid)
   \<and> (createAttestation sv = Inr uid \<and> write_error W (attestation_json W) = None \<and>
      fst (uploadToIPFS (load_uploadToIPFS (env W)) sv (written W uid) (metadataNFTree W)) = Inr url \<and>
      env W ''RECIPIENT_ADDRESS'' = Some to \<and> to \<noteq> [] \<and> mintNFTree sv to 2 1 url = Inl e \<longrightarrow>
        steps_of (events (runWorkflow W sv)) = [Attest, Persist, Upload, ReadRecipient, MintToken] \<and>
        files_after (runWorkflow W sv) = written W uid)
   \<and> (createAttestation sv = Inr uid \<and> write_error W (attestation_json W) = None \<and>
      fst (uploadToIPFS (load_uploadToIPFS (env W)) sv (written W uid) (metadataNFTree W)) = Inr url \<and>
      env W ''RECIPIENT_ADDRESS'' = Some to \<and> to \<noteq> [] \<and>
      mintNFTree sv to 2 1 url = Inr mintReceipt \<longrightarrow>
        steps_of (events (runWorkflow W sv)) = [Attest, Persist, Upload, ReadRecipient, MintToken])
   \<and> (falsy (env W ''RECIPIENT_ADDRESS'') \<longrightarrow> mint_calls (events (runWorkflow W sv)) = [])"
proof -
  have order: "prefix (steps_of (events (runWorkflow W sv)))
                 [Attest, Persist, Upload, ReadRecipient, MintToken]"
  proof (cases rule: run_cases [where sv = sv and W = W])
    case (attest e)
    from run_attest_fails [OF this] show ?thesis by simp
  next
    case (persist uid e)
    from run_persist_fails [OF this] show ?thesis by simp
  next
    case (upload uid e)
    from run_upload_fails [OF this] show ?thesis by simp
  next
    case (recipient uid url)
    from run_recipient_missing [OF this] show ?thesis by simp
  next
    case (minting uid url to e)
    from run_mint_fails [OF this] show ?thesis by simp
  next
    case (complete uid url to mintReceipt)
    from run_completes [OF this] show ?thesis by simp
  qed
  have no_mint: "mint_calls (events (runWorkflow W sv)) = []"
    if absent: "falsy (env W ''RECIPIENT_ADDRESS'')"
  proof (cases rule: run_cases [where sv = sv and W = W])
    case (attest e)
    from run_attest_fails [OF this] show ?thesis by simp
  next
    case (persist uid e)
    from run_persist_fails [OF this] show ?thesis by simp
  next
    case (upload uid e)
    from run_upload_fails [OF this] show ?thesis by simp
  next
    case (recipient uid url)
    from run_recipient_missing [OF this] show ?thesis by simp
  next
    case (minting uid url to e)
    with absent show ?thesis by (simp add: falsy_def)
  next
    case (complete uid url to mintReceipt)
    with absent show ?thesis by (simp add: falsy_def)
  qed
  show ?thesis
  proof (intro conjI impI)
    show "prefix (steps_of (events (runWorkflow W sv)))
            [Attest, Persist, Upload, ReadRecipient, MintToken]"
      by (rule order)
    show "mint_calls (events (runWorkflow W sv)) = []" if "falsy (env W ''RECIPIENT_ADDRESS'')"
      using that by (rule no_mint)
  qed (simp_all add: run_attest_fails run_persist_fails run_upload_fails run_recipient_missing
         run_mint_fails run_completes)
qed

theorem steps_in_order_witness:
  "steps_of (events (runWorkflow (mock_world\<lparr>env := mock_env(''RECIPIENT_ADDRESS'' := None)\<rparr>)
                      mock_services))
     = [Attest, Persist, Upload, ReadRecipient]
   \<and> mint_calls (events (runWorkflow (mock_world\<lparr>env := mock_env(''RECIPIENT_ADDRESS'' := None)\<rparr>)
                           mock_services)) = []
   \<and> steps_of (events (runWorkflow mock_world mock_services))
     = [Attest, Persist, Upload, ReadRecipient, MintToken]"
proof -
  let ?W = "mock_world\<lparr>env := mock_env(''RECIPIENT_ADDRESS'' := None)\<rparr>"
  let ?url = "''https://gateway.pinata.cloud/ipfs/Qm123''"
  let ?to = "''0xf703e22985579d53284648Ba4C56735d6B746c2d''"
  have a: "createAttestation mock_services = Inr ''0xabc''"
    by (simp add: mock_services_def)
  have w: "write_error ?W (attestation_json ?W) = None"
    "write_error mock_world (attestation_json mock_world) = None"
    by (simp_all add: mock_world_def)
  have u: "fst (uploadToIPFS (load_uploadToIPFS (env mock_world)) mock_services
                 (written mock_world ''0xabc'') (metadataNFTree mock_world)) = Inr ?url"
    using mock_upload [of "''0xabc''"] by (simp add: mock_world_def)
  have u': "fst (uploadToIPFS (load_uploadToIPFS (env ?W)) mock_services
                 (written ?W ''0xabc'') (metadataNFTree ?W)) = Inr ?url"
    by (simp add: uploadToIPFS_def uploadToIPFS_try_def load_uploadToIPFS_def mock_env_def
        mock_services_def mock_world_def written_def metadataNFTree_def attestation_json_def
        path_join_def falsy_def existsSync_def plus_string_def)
  have r': "falsy (env ?W ''RECIPIENT_ADDRESS'')"
    by (simp add: falsy_def)
  have r: "env mock_world ''RECIPIENT_ADDRESS'' = Some ?to" "?to \<noteq> []"
    by (simp_all add: mock_world_def mock_env_def)
  have m: "mintNFTree mock_services ?to 2 1 ?url = Inr ''receipt''"
    by (simp add: mock_services_def)
  from steps_in_order [of ?W mock_services _ "''0xabc''" ?url] a w(1) u' r'
  have "steps_of (events (runWorkflow ?W mock_services)) = [Attest, Persist, Upload, ReadRecipient]
      \<and> mint_calls (events (runWorkflow ?W mock_services)) = []"
    by blast
  moreover
  from steps_in_order [of mock_world mock_services _ "''0xabc''" ?url ?to "''receipt''"] a w(2) u r m
  have "steps_of (events (runWorkflow mock_world mock_services))
          = [Attest, Persist, Upload, ReadRecipient, MintToken]"
    by blast
  ultimately show ?thesis by blast
qed

subsection \<open>The persisted record\<close>

text \<open>
  Claim C3. After a run that completed with the attestation identifier \<open>uid\<close>, the record
  file holds exactly the pretty-printed object with the members \<open>name\<close> (the text
  AttestationUID) and \<open>value\<close> (the identifier), which is what \<open>JSON.stringify\<close> with
  indentation 2 produces; every other file is as before. The file is replaced whole: after
  a second completed run, on the files the first run left, with identifier \<open>uid'\<close>, the
  record file holds exactly the record of \<open>uid'\<close>.
\<close>

theorem record_persisted:
  assumes "createAttestation sv = Inr uid" and "fst (runWorkflow_try W sv) = Inr ()"
  shows "files_after (runWorkflow W sv) (attestation_json W) = Some (attestation_record_text uid)
       \<and> attestation_record_text uid
           = JSON_stringify
               (JObject [(''name'', JString ''AttestationUID''), (''value'', JString uid)]) 2
       \<and> (\<forall>p. p \<noteq> attestation_json W \<longrightarrow> files_after (runWorkflow W sv) p = files W p)
       \<and> (createAttestation sv' = Inr uid' \<and>
          fst (runWorkflow_try (W\<lparr>files := files_after (runWorkflow W sv)\<rparr>) sv') = Inr () \<longrightarrow>
            files_after (runWorkflow (W\<lparr>files := files_after (runWorkflow W sv)\<rparr>) sv')
              (attestation_json W) = Some (attestation_record_text uid'))"
proof -
  let ?W' = "W\<lparr>files := files_after (runWorkflow W sv)\<rparr>"
  have first: "files_after (runWorkflow W sv) = written W uid"
    using assms by (rule run_success_files)
  have same_path: "attestation_json ?W' = attestation_json W"
    by (simp add: attestation_json_def)
  have second: "files_after (runWorkflow ?W' sv') (attestation_json W)
                  = Some (attestation_record_text uid')"
    if "createAttestation sv' = Inr uid'" and "fst (runWorkflow_try ?W' sv') = Inr ()"
  proof -
    from that have "files_after (runWorkflow ?W' sv') = written ?W' uid'"
      by (rule run_success_files)
    then show ?thesis
      using written_record [of ?W' uid'] by (simp add: same_path)
  qed
  show ?thesis
  proof (intro conjI impI allI)
    show "files_after (runWorkflow W sv) (attestation_json W) = Some (attestation_record_text uid)"
      by (simp add: first written_record)
    show "attestation_record_text uid
            = JSON_stringify
                (JObject [(''name'', JString ''AttestationUID''), (''value'', JString uid)]) 2"
      by (simp add: stringify_record)
    show "files_after (runWorkflow W sv) p = files W p" if "p \<noteq> attestation_json W" for p
      using that by (simp add: first written_other)
    show "files_after (runWorkflow ?W' sv') (attestation_json W)
            = Some (attestation_record_text uid')"
      if "createAttestation sv' = Inr uid' \<and> fst (runWorkflow_try ?W' sv') = Inr ()"
      using that second by blast
  qed
qed

theorem record_persisted_witness:
  "files_after (runWorkflow mock_world mock_services) ''/app/attestation.json''
     = Some (attestation_record_text ''0xabc'')
   \<and> files_after
        (runWorkflow (mock_world\<lparr>files := files_after (runWorkflow mock_world mock_services)\<rparr>)
           (mock_services\<lparr>createAttestation := Inr ''0xdef''\<rparr>))
        ''/app/attestation.json''
     = Some (attestation_record_text ''0xdef'')
   \<and> attestation_record_text ''0xabc''
     = ''{'' @ [CHR 0x0A]
       @ ''  '' @ [CHR 0x22] @ ''name'' @ [CHR 0x22] @ '': '' @ [CHR 0x22] @ ''AttestationUID'' @ [CHR 0x22]
       @ '','' @ [CHR 0x0A]
       @ ''  '' @ [CHR 0x22] @ ''value'' @ [CHR 0x22] @ '': '' @ [CHR 0x22] @ ''0xabc'' @ [CHR 0x22]
       @ [CHR 0x0A] @ ''}''"
proof -
  let ?url = "''https://gateway.pinata.cloud/ipfs/Qm123''"
  let ?to = "''0xf703e22985579d53284648Ba4C56735d6B746c2d''"
  let ?sv' = "mock_services\<lparr>createAttestation := Inr ''0xdef''\<rparr>"
  let ?W' = "mock_world\<lparr>files := files_after (runWorkflow mock_world mock_services)\<rparr>"
  have a: "createAttestation mock_services = Inr ''0xabc''"
    and a': "createAttestation ?sv' = Inr ''0xdef''"
    by (simp_all add: mock_services_def)
  have w: "write_error mock_world (attestation_json mock_world) = None"
    and w': "write_error ?W' (attestation_json ?W') = None"
    by (simp_all add: mock_world_def)
  have u: "fst (uploadToIPFS (load_uploadToIPFS (env mock_world)) mock_services
                 (written mock_world ''0xabc'') (metadataNFTree mock_world)) = Inr ?url"
    using mock_upload [of "''0xabc''"] by (simp add: mock_world_def)
  have r: "env mock_world ''RECIPIENT_ADDRESS'' = Some ?to" "?to \<noteq> []"
    and r': "env ?W' ''RECIPIENT_ADDRESS'' = Some ?to"
    by (simp_all add: mock_world_def mock_env_def)
  have m: "mintNFTree mock_services ?to 2 1 ?url = Inr ''receipt''"
    and m': "mintNFTree ?sv' ?to 2 1 ?url = Inr ''receipt''"
    by (simp_all add: mock_services_def)
  have done1: "fst (runWorkflow_try mock_world mock_services) = Inr ()"
    using run_completes [OF a w u r m] by simp
  have left: "files_after (runWorkflow mock_world mock_services) = written mock_world ''0xabc''"
    using a done1 by (rule run_success_files)
  have u': "fst (uploadToIPFS (load_uploadToIPFS (env ?W')) ?sv'
                  (written ?W' ''0xdef'') (metadataNFTree ?W')) = Inr ?url"
    unfolding left
    by (simp add: uploadToIPFS_def uploadToIPFS_try_def load_uploadToIPFS_def mock_env_def
        mock_services_def mock_world_def written_def metadataNFTree_def attestation_json_def
        path_join_def falsy_def existsSync_def plus_string_def)
  have done2: "fst (runWorkflow_try ?W' ?sv') = Inr ()"
    using run_completes [OF a' w' u' r' r(2) m'] by simp
  have path: "attestation_json mock_world = ''/app/attestation.json''"
    by (simp add: attestation_json_def path_join_def mock_world_def)
  have text': "attestation_record_text ''0xabc''
     = ''{'' @ [CHR 0x0A]
       @ ''  '' @ [CHR 0x22] @ ''name'' @ [CHR 0x22] @ '': '' @ [CHR 0x22] @ ''AttestationUID'' @ [CHR 0x22]
       @ '','' @ [CHR 0x0A]
       @ ''  '' @ [CHR 0x22] @ ''value'' @ [CHR 0x22] @ '': '' @ [CHR 0x22] @ ''0xabc'' @ [CHR 0x22]
       @ [CHR 0x0A] @ ''}''"
    by (simp add: attestation_record_text_def QuoteJSONString_def quote_code_unit_def)
  from record_persisted [OF a done1, of ?sv' "''0xdef''"] a' done2 path text'
  show ?thesis by simp
qed

subsection \<open>The URL handed to the mint\<close>

text \<open>
  Claim C6. With the key, the secret and the gateway base URL configured, \<open>uploadToIPFS\<close>
  on an existing file that the pinning service accepts returns the gateway base URL
  followed directly by the content identifier the service returned, nothing in between.
  In a run that reaches the mint, \<open>mintNFTree\<close> is called exactly once, with the recipient,
  token id 2, amount 1 and this very URL as the token URI.
\<close>

theorem url_handoff:
  assumes "\<not> falsy (env W ''PINATA_API_KEY'')" and "\<not> falsy (env W ''PINATA_API_SECRET'')"
    and "env W ''PINATA_GATEWAY_URL'' = Some gatewayBase"
  shows "(existsSync fs filePath \<and>
          pinFileToIPFS sv (ReadStream filePath) (options_for filePath) = Inr result \<longrightarrow>
            fst (uploadToIPFS (load_uploadToIPFS (env W)) sv fs filePath)
              = Inr (gatewayBase @ IpfsHash result))
       \<and> (createAttestation sv = Inr uid \<and> write_error W (attestation_json W) = None \<and>
          existsSync (files W) (metadataNFTree W) \<and>
          pinFileToIPFS sv (ReadStream (metadataNFTree W)) (options_for (metadataNFTree W))
            = Inr result' \<and>
          env W ''RECIPIENT_ADDRESS'' = Some to \<and> to \<noteq> [] \<longrightarrow>
            mint_calls (events (runWorkflow W sv))
              = [Call_mintNFTree to 2 1 (gatewayBase @ IpfsHash result')])"
proof -
  let ?m = "load_uploadToIPFS (env W)"
  have keys: "\<not> falsy (pinataApiKey ?m)" "\<not> falsy (pinataSecretApiKey ?m)"
    and gateway: "gatewayURL ?m = Some gatewayBase"
    using assms by (simp_all add: load_uploadToIPFS_def)
  have returns: "fst (uploadToIPFS ?m sv fs' p) = Inr (gatewayBase @ IpfsHash r)"
    if "existsSync fs' p" and "pinFileToIPFS sv (ReadStream p) (options_for p) = Inr r"
    for fs' p r
    using upload_returns [OF keys that] gateway by (simp add: plus_string_def)
  have handoff: "mint_calls (events (runWorkflow W sv))
                   = [Call_mintNFTree to 2 1 (gatewayBase @ IpfsHash result')]"
    if a: "createAttestation sv = Inr uid" and w: "write_error W (attestation_json W) = None"
      and x: "existsSync (files W) (metadataNFTree W)"
      and p: "pinFileToIPFS sv (ReadStream (metadataNFTree W)) (options_for (metadataNFTree W))
                = Inr result'"
      and r: "env W ''RECIPIENT_ADDRESS'' = Some to" "to \<noteq> []"
  proof -
    from x have "existsSync (written W uid) (metadataNFTree W)"
      by (simp add: existsSync_def written_def)
    from returns [OF this p]
    have u: "fst (uploadToIPFS ?m sv (written W uid) (metadataNFTree W))
               = Inr (gatewayBase @ IpfsHash result')" .
    show ?thesis
    proof (cases "mintNFTree sv to 2 1 (gatewayBase @ IpfsHash result')")
      case (Inl e)
      from run_mint_fails [OF a w u r this] show ?thesis by simp
    next
      case (Inr mintReceipt)
      from run_completes [OF a w u r this] show ?thesis by simp
    qed
  qed
  from returns handoff show ?thesis by blast
qed

theorem url_handoff_witness:
  "fst (uploadToIPFS (load_uploadToIPFS (env mock_world)) mock_services (files mock_world)
          ''/app/metadataNFTree'')
     = Inr (''https://gateway.pinata.cloud/ipfs/'' @ ''Qm123'')
   \<and> mint_calls (events (runWorkflow mock_world mock_services))
     = [Call_mintNFTree ''0xf703e22985579d53284648Ba4C56735d6B746c2d'' 2 1
          (''https://gateway.pinata.cloud/ipfs/'' @ ''Qm123'')]"
proof -
  let ?g = "''https://gateway.pinata.cloud/ipfs/''"
  let ?to = "''0xf703e22985579d53284648Ba4C56735d6B746c2d''"
  let ?r = "\<lparr>IpfsHash = ''Qm123''\<rparr>"
  have k: "\<not> falsy (env mock_world ''PINATA_API_KEY'')"
    "\<not> falsy (env mock_world ''PINATA_API_SECRET'')"
    and g: "env mock_world ''PINATA_GATEWAY_URL'' = Some ?g"
    and r: "env mock_world ''RECIPIENT_ADDRESS'' = Some ?to" "?to \<noteq> []"
    by (simp_all add: mock_world_def mock_env_def falsy_def)
  have a: "createAttestation mock_services = Inr ''0xabc''"
    and p: "pinFileToIPFS mock_services (ReadStream p') (options_for p') = Inr ?r" for p'
    by (simp_all add: mock_services_def)
  have w: "write_error mock_world (attestation_json mock_world) = None"
    and path: "metadataNFTree mock_world = ''/app/metadataNFTree''"
    and x: "existsSync (files mock_world) ''/app/metadataNFTree''"
    by (simp_all add: mock_world_def metadataNFTree_def path_join_def existsSync_def)
  from url_handoff [OF k g, of "files mock_world" "''/app/metadataNFTree''" mock_services ?r
      "''0xabc''" ?r ?to]
    a p w x r
  show ?thesis by (simp add: path)
qed

subsection \<open>What the run does with an error\<close>

text \<open>
  Claim C4, as stated, fails: when the first step raises, the error is caught and logged,
  and the main function returns normally. The promise of the run is fulfilled, exactly as
  in a run without error; nothing marks the run as failed.
\<close>

theorem error_swallowed_counterexample:
  "fst (runWorkflow_try mock_world
          (mock_services\<lparr>createAttestation := Inl (Thrown ''attestation failed'')\<rparr>))
     = Inl (Thrown ''attestation failed'')
   \<and> \<not> isl (settled (runWorkflow mock_world
          (mock_services\<lparr>createAttestation := Inl (Thrown ''attestation failed'')\<rparr>)))
   \<and> settled (runWorkflow mock_world
          (mock_services\<lparr>createAttestation := Inl (Thrown ''attestation failed'')\<rparr>))
     = settled (runWorkflow mock_world mock_services)"
proof -
  have "settled (runWorkflow W sv) = Inr ()" for W sv
    by (cases "runWorkflow_try W sv" rule: prod_cases3; cases "fst (runWorkflow_try W sv)")
       (simp_all add: runWorkflow_def)
  then show ?thesis
    by (simp add: runWorkflow_try_def mock_services_def)
qed

text \<open>
  Claim C4, amended. When a step raises an error, the body of the main function ends with
  this error, the run reports it to the operator with \<open>console.error\<close> as its last action,
  after everything the body did, and then the main function returns normally: the promise
  of the run is fulfilled, as it is in a run without error.
\<close>

theorem error_logged:
  "settled (runWorkflow W sv) = Inr ()
   \<and> (fst (runWorkflow_try W sv) = Inl e \<longrightarrow>
        events (runWorkflow W sv)
          = snd (snd (runWorkflow_try W sv)) @ [ConsoleError ''Error in main process:'' e])
   \<and> (fst (runWorkflow_try W sv) = Inr () \<longrightarrow>
        events (runWorkflow W sv) = snd (snd (runWorkflow_try W sv)))
   \<and> (createAttestation sv = Inl e \<longrightarrow> fst (runWorkflow_try W sv) = Inl e)
   \<and> (createAttestation sv = Inr uid \<and> write_error W (attestation_json W) = Some e \<longrightarrow>
        fst (runWorkflow_try W sv) = Inl e)
   \<and> (createAttestation sv = Inr uid \<and> write_error W (attestation_json W) = None \<and>
      fst (uploadToIPFS (load_uploadToIPFS (env W)) sv (written W uid) (metadataNFTree W)) = Inl e \<longrightarrow>
        fst (runWorkflow_try W sv) = Inl e)
   \<and> (createAttestation sv = Inr uid \<and> write_error W (attestation_json W) = None \<and>
      fst (uploadToIPFS (load_uploadToIPFS (env W)) sv (written W uid) (metadataNFTree W)) = Inr url \<and>
      falsy (env W ''RECIPIENT_ADDRESS'') \<longrightarrow>
        fst (runWorkflow_try W sv) = Inl RecipientNotConfigured)
   \<and> (createAttestation sv = Inr uid \<and> write_error W (attestation_json W) = None \<and>
      fst (uploadToIPFS (load_uploadToIPFS (env W)) sv (written W uid) (metadataNFTree W)) = Inr url \<and>
      env W ''RECIPIENT_ADDRESS'' = Some to \<and> to \<noteq> [] \<and> mintNFTree sv to 2 1 url = Inl e \<longrightarrow>
        fst (runWorkflow_try W sv) = Inl e)"
proof -
  obtain r fs evs where body: "runWorkflow_try W sv = (r, fs, evs)"
    by (rule prod_cases3)
  have "settled (runWorkflow W sv) = Inr ()"
    using body by (cases r) (simp_all add: runWorkflow_def)
  moreover have "events (runWorkflow W sv)
          = snd (snd (runWorkflow_try W sv)) @ [ConsoleError ''Error in main process:'' e]"
    if "fst (runWorkflow_try W sv) = Inl e"
    using that body by (simp add: runWorkflow_def)
  moreover have "events (runWorkflow W sv) = snd (snd (runWorkflow_try W sv))"
    if "fst (runWorkflow_try W sv) = Inr ()"
    using that body by (simp add: runWorkflow_def)
  ultimately show ?thesis
    by (simp add: run_attest_fails run_persist_fails run_upload_fails run_recipient_missing
        run_mint_fails)
qed

theorem error_logged_witness:
  "events (runWorkflow mock_world
             (mock_services\<lparr>createAttestation := Inl (Thrown ''attestation failed'')\<rparr>))
     = [ConsoleLog [''Step 1: Creating attestation...''], Call_createAttestation,
        ConsoleError ''Error in main process:'' (Thrown ''attestation failed'')]
   \<and> settled (runWorkflow mock_world
             (mock_services\<lparr>createAttestation := Inl (Thrown ''attestation failed'')\<rparr>))
     = Inr ()"
proof -
  let ?sv = "mock_services\<lparr>createAttestation := Inl (Thrown ''attestation failed'')\<rparr>"
  have a: "createAttestation ?sv = Inl (Thrown ''attestation failed'')"
    by simp
  have t: "snd (snd (runWorkflow_try mock_world ?sv))
             = [ConsoleLog [''Step 1: Creating attestation...''], Call_createAttestation]"
    by (simp add: runWorkflow_try_def)
  from error_logged [of mock_world ?sv "Thrown ''attestation failed''"] a t
  show ?thesis by simp
qed

end
